theory Spec2Isabelle
  imports Main
begin

section \<open>Strings and JavaScript truthiness\<close>

text \<open>
  A JavaScript string is a sequence of UTF-16 code units; \<open>length\<close>, \<open>substring\<close> and
  \<open>slice\<close> count code units. The model uses \<^typ>\<open>string\<close>, reading each \<^typ>\<open>char\<close> as one
  code unit in the range 0..255. An optional property (\<open>x?: string\<close>, \<open>string | null\<close>)
  is a \<^typ>\<open>string option\<close>; \<open>None\<close> stands for \<open>undefined\<close> and \<open>null\<close>.
\<close>

definition truthy :: "string option \<Rightarrow> bool" where
  "truthy v = (case v of None \<Rightarrow> False | Some s \<Rightarrow> s \<noteq> [])"

text \<open>\<open>a || b\<close> on optional strings: the first operand when it is truthy, else the second.\<close>

definition or_else :: "string option \<Rightarrow> string option \<Rightarrow> string option" where
  "or_else a b = (if truthy a then a else b)"

text \<open>
  White space as \<open>\s\<close> and \<open>String.prototype.trim\<close> see it (WhiteSpace and LineTerminator),
  for code units below 256: TAB, LF, VT, FF, CR, SPACE and NO-BREAK SPACE.
\<close>

definition is_space :: "char \<Rightarrow> bool" where
  "is_space c = ((of_char c :: nat) \<in> {9, 10, 11, 12, 13, 32, 160})"


section \<open>The regular expressions of \<open>sanitizeErrorMessage\<close>\<close>

text \<open>
  The four patterns of \<open>sanitizeErrorMessage\<close> (\<open>src/src/lib/errors.ts\<close>) are sequences
  of case-insensitive literals and quantified character classes. \<open>matchAt\<close> is the backtracking matcher of the language
  specification restricted to these forms: a quantified class first takes as many
  characters as it can and gives them back one at a time while the rest of the pattern
  fails. It returns the length of the match found at the start of the string.
\<close>

datatype cls = Space | TokenChar | EqColon | UnderDash | Equals

datatype quant = Once | Optional | Star | Plus

datatype atom = Lit string | Cls cls quant

text \<open>
  Canonicalize of the \<open>i\<close> flag (no \<open>u\<close> flag): \<open>toUpperCase\<close> of one code unit, except
  that a code unit from 128 on never maps below 128. Only the comparison with ASCII
  pattern characters matters, so code units from 128 on are left as they are.
\<close>

definition canonicalize :: "char \<Rightarrow> char" where
  "canonicalize c =
     (let n = (of_char c :: nat) in if 97 \<le> n \<and> n \<le> 122 then char_of (n - 32) else c)"

text \<open>\<open>\w\<close> under the \<open>i\<close> flag: a letter of either case, a digit or the underscore.\<close>

definition is_word :: "char \<Rightarrow> bool" where
  "is_word c =
     (let n = (of_char (canonicalize c) :: nat)
      in (65 \<le> n \<and> n \<le> 90) \<or> (48 \<le> n \<and> n \<le> 57) \<or> n = 95)"

fun in_cls :: "cls \<Rightarrow> char \<Rightarrow> bool" where
  "in_cls Space c = is_space c"
| "in_cls TokenChar c = (is_word c \<or> c \<in> set ''-._~+/'')"
| "in_cls EqColon c = (c \<in> set ''=:'')"
| "in_cls UnderDash c = (c \<in> set ''_-'')"
| "in_cls Equals c = (c = CHR ''='')"

fun ci_prefix :: "string \<Rightarrow> string \<Rightarrow> bool" where
  "ci_prefix [] s = True"
| "ci_prefix (l # ls) [] = False"
| "ci_prefix (l # ls) (c # cs) = (canonicalize c = canonicalize l \<and> ci_prefix ls cs)"

text \<open>The repetition counts a quantifier tries, greedy first, when \<open>n\<close> characters of the class are at hand.\<close>

fun candidates :: "quant \<Rightarrow> nat \<Rightarrow> nat list" where
  "candidates Once n = (if 1 \<le> n then [1] else [])"
| "candidates Optional n = (if 1 \<le> n then [1, 0] else [0])"
| "candidates Star n = rev [0..<Suc n]"
| "candidates Plus n = rev [1..<Suc n]"

fun first_some :: "'a option list \<Rightarrow> 'a option" where
  "first_some [] = None"
| "first_some (None # rs) = first_some rs"
| "first_some (Some r # rs) = Some r"

fun matchAt :: "atom list \<Rightarrow> string \<Rightarrow> nat option" where
  "matchAt [] s = Some 0"
| "matchAt (Lit l # as) s =
     (if ci_prefix l s then map_option (\<lambda>n. length l + n) (matchAt as (drop (length l) s))
      else None)"
| "matchAt (Cls c q # as) s =
     first_some (map (\<lambda>k. map_option (\<lambda>n. k + n) (matchAt as (drop k s)))
                     (candidates q (length (takeWhile (in_cls c) s))))"

text \<open>
  \<open>String.prototype.replace\<close> with a global pattern and a replacement free of \<open>$\<close>: the
  string is scanned from the left, every match is replaced and the scan goes on behind
  it; after an empty match the scan copies one character.
\<close>

fun replaceAll :: "atom list \<Rightarrow> string \<Rightarrow> string \<Rightarrow> string" where
  "replaceAll P r [] = (if matchAt P [] = None then [] else r)"
| "replaceAll P r (c # cs) =
     (case matchAt P (c # cs) of
        None \<Rightarrow> c # replaceAll P r cs
      | Some 0 \<Rightarrow> r @ c # replaceAll P r cs
      | Some (Suc n) \<Rightarrow> r @ replaceAll P r (drop n cs))"

text \<open>
  \<^verbatim>\<open>/Bearer\s+[\w\-._~+/]+=*/gi\<close>,
  \<^verbatim>\<open>/token[=:]\s*[\w\-._~+/]+=*/gi\<close>,
  \<^verbatim>\<open>/client[_-]?secret[=:]\s*[\w\-._~+/]+=*/gi\<close>,
  \<^verbatim>\<open>/authorization:\s*bearer\s+[\w\-._~+/]+=*/gi\<close>.
\<close>

definition bearerPattern :: "atom list" where
  "bearerPattern = [Lit ''Bearer'', Cls Space Plus, Cls TokenChar Plus, Cls Equals Star]"

definition tokenPattern :: "atom list" where
  "tokenPattern =
     [Lit ''token'', Cls EqColon Once, Cls Space Star, Cls TokenChar Plus, Cls Equals Star]"

definition clientSecretPattern :: "atom list" where
  "clientSecretPattern =
     [Lit ''client'', Cls UnderDash Optional, Lit ''secret'', Cls EqColon Once,
      Cls Space Star, Cls TokenChar Plus, Cls Equals Star]"

definition authorizationPattern :: "atom list" where
  "authorizationPattern =
     [Lit ''authorization:'', Cls Space Star, Lit ''bearer'', Cls Space Plus,
      Cls TokenChar Plus, Cls Equals Star]"

definition sensitivePatterns :: "atom list list" where
  "sensitivePatterns =
     [bearerPattern, tokenPattern, clientSecretPattern, authorizationPattern]"

definition REDACTED :: string where
  "REDACTED = ''[REDACTED]''"

text \<open>The loop of \<open>sanitizeErrorMessage\<close>: one global replacement per pattern, in order.\<close>

definition redact :: "string \<Rightarrow> string" where
  "redact message = foldl (\<lambda>sanitized pattern. replaceAll pattern REDACTED sanitized)
                          message sensitivePatterns"

definition sanitizeErrorMessage :: "string \<Rightarrow> string" where
  "sanitizeErrorMessage message =
     (let sanitized = redact message
      in if length sanitized > 500 then take 500 sanitized @ ''...'' else sanitized)"

text \<open>A pattern occurs in a string when it matches at some position of it.\<close>

fun occurs :: "atom list \<Rightarrow> string \<Rightarrow> bool" where
  "occurs P [] = (matchAt P [] \<noteq> None)"
| "occurs P (c # cs) = (matchAt P (c # cs) \<noteq> None \<or> occurs P cs)"

definition sensitive :: "string \<Rightarrow> bool" where
  "sensitive s = list_ex (\<lambda>P. occurs P s) sensitivePatterns"



section \<open>The Error Normalizer (\<open>src/src/lib/errors.ts\<close>)\<close>

text \<open>The interface \<open>ApiErrorResponse\<close>; every property is optional.\<close>

record EmbeddedError =
  entry_path :: "string option"
  entry_message :: "string option"
  rejectedValue :: "string option"

record Embedded =
  errors :: "EmbeddedError list option"

record ApiErrorResponse =
  error :: "string option"
  error_description :: "string option"
  message :: "string option"
  embedded :: "Embedded option"

text \<open>The empty object \<open>{}\<close> seen through \<open>ApiErrorResponse\<close>.\<close>

definition emptyObject :: ApiErrorResponse where
  "emptyObject = \<lparr>error = None, error_description = None, message = None, embedded = None\<rparr>"

text \<open>
  A value of type \<open>unknown\<close> as \<open>sanitizeApiError\<close> meets it: a primitive, or an object
  read through the interface \<open>ApiErrorResponse\<close>.
\<close>

datatype unknown =
    JsUndefined | JsNull | JsBoolean bool | JsNumber int | JsString string
  | JsObject ApiErrorResponse

fun isErrorObject :: "unknown \<Rightarrow> bool" where
  "isErrorObject (JsObject _) = True"
| "isErrorObject _ = False"

record HelpScoutError =
  name :: string
  detail :: string

record ErrorResponse = HelpScoutError +
  statusCode :: nat

text \<open>\<open>Array.prototype.join\<close> on strings.\<close>

fun join :: "string \<Rightarrow> string list \<Rightarrow> string" where
  "join sep [] = []"
| "join sep [x] = x"
| "join sep (x # y # xs) = x @ sep @ join sep (y # xs)"

text \<open>\<open>.map(e => e.message || e.path).filter(Boolean)\<close>\<close>

definition embeddedMessages :: "EmbeddedError list \<Rightarrow> string list" where
  "embeddedMessages es =
     List.map_filter (\<lambda>v. if truthy v then v else None)
       (map (\<lambda>e. or_else (entry_message e) (entry_path e)) es)"

text \<open>\<open>apiError._embedded?.errors\<close>\<close>

definition embeddedErrors :: "ApiErrorResponse \<Rightarrow> EmbeddedError list option" where
  "embeddedErrors apiError = (case embedded apiError of None \<Rightarrow> None | Some e \<Rightarrow> errors e)"

text \<open>The string held by an optional string that has been tested truthy.\<close>

definition str :: "string option \<Rightarrow> string" where
  "str v = (case v of None \<Rightarrow> [] | Some s \<Rightarrow> s)"

definition sanitizeApiError :: "unknown \<Rightarrow> HelpScoutError" where
  "sanitizeApiError e =
     (case e of
        JsObject apiError \<Rightarrow>
          (let detail0 =
             (if truthy (error_description apiError) then str (error_description apiError)
              else if truthy (message apiError) then str (message apiError)
              else (case embeddedErrors apiError of
                      None \<Rightarrow> ''An error occurred''
                    | Some es \<Rightarrow>
                        if length es \<noteq> 0 then join ''; '' (embeddedMessages es)
                        else ''An error occurred''))
           in \<lparr>name = (if truthy (error apiError) then str (error apiError) else ''api_error''),
               detail = sanitizeErrorMessage detail0\<rparr>)
      | _ \<Rightarrow> \<lparr>name = ''api_error'', detail = ''An error occurred''\<rparr>)"

definition ERROR_STATUS_CODES :: "(string \<times> nat) list" where
  "ERROR_STATUS_CODES =
     [(''bad_request'', 400), (''unauthorized'', 401), (''forbidden'', 403),
      (''not_found'', 404), (''conflict'', 409), (''too_many_requests'', 429),
      (''internal_server_error'', 500), (''service_unavailable'', 503)]"

definition enhanceRateLimitMessage :: "string \<Rightarrow> string" where
  "enhanceRateLimitMessage d =
     d @ [CHR 0x0A, CHR 0x0A]
       @ ''Help Scout API limit: 200 requests/minute. Wait a moment and retry.''"

text \<open>
  \<open>formatErrorResponse\<close> prints \<open>{error: {name, detail, statusCode}}\<close> and ends the process
  with exit status 1; the model returns what is printed.
\<close>

definition formatErrorResponse :: "string \<Rightarrow> string \<Rightarrow> nat \<Rightarrow> ErrorResponse" where
  "formatErrorResponse n d code =
     \<lparr>name = n,
      detail = (if n = ''too_many_requests'' then enhanceRateLimitMessage d else d),
      statusCode = code\<rparr>"

text \<open>
  The values the client throws: a \<open>HelpScoutCliError\<close> (message, optional status code), the
  object \<open>{...error, statusCode}\<close> built from an error body, and a built-in \<open>Error\<close> with
  its message (a rejected \<open>fetch\<close>, a body that is not JSON). \<open>Primitive\<close> stands for a
  thrown value that is not an object.
\<close>

datatype thrown =
    HelpScoutCliError string "nat option"
  | ApiFailure ApiErrorResponse nat
  | JsError string
  | Primitive

text \<open>\<open>statusCode || d\<close> on an optional number.\<close>

definition code_or :: "nat option \<Rightarrow> nat \<Rightarrow> nat" where
  "code_or c d = (case c of None \<Rightarrow> d | Some n \<Rightarrow> if n = 0 then d else n)"

text \<open>
  \<open>handleHelpScoutError\<close>. The lookup \<open>ERROR_STATUS_CODES[name]\<close> is read on the table's own
  keys.
\<close>

fun handleHelpScoutError :: "thrown \<Rightarrow> ErrorResponse" where
  "handleHelpScoutError Primitive =
     formatErrorResponse ''unknown_error'' ''An unexpected error occurred'' 1"
| "handleHelpScoutError (HelpScoutCliError msg code) =
     formatErrorResponse ''cli_error'' (sanitizeErrorMessage msg) (code_or code 1)"
| "handleHelpScoutError (ApiFailure errorObj code) =
     (if truthy (error errorObj) then
        (let hsError = sanitizeApiError (JsObject errorObj)
         in formatErrorResponse (name hsError) (detail hsError)
              (code_or (Some code)
                 (code_or (map_of ERROR_STATUS_CODES (name hsError)) 500)))
      else formatErrorResponse ''unknown_error''
             (sanitizeErrorMessage
                (if truthy (message errorObj) then str (message errorObj)
                 else ''An unexpected error occurred''))
             (code_or (Some code) 1))"
| "handleHelpScoutError (JsError msg) =
     formatErrorResponse ''unknown_error''
       (sanitizeErrorMessage (if msg \<noteq> [] then msg else ''An unexpected error occurred'')) 1"

section \<open>The client (class \<open>HelpScoutClient\<close>, \<open>src/unnamed/part_001\<close>)\<close>

text \<open>
  Modelled from the spec: the Credential Store (\<open>lib/auth.js\<close>, not among the sources)
  "persists app id/secret, access token, refresh token" and "exposes get/set/clear per
  field". It is a record of optional strings; a getter reads a field and a setter
  writes it.
\<close>

record CredentialStore =
  appId :: "string option"
  appSecret :: "string option"
  storedAccessToken :: "string option"
  refreshToken :: "string option"

definition setAccessToken :: "string \<Rightarrow> CredentialStore \<Rightarrow> CredentialStore" where
  "setAccessToken t st = st\<lparr>storedAccessToken := Some t\<rparr>"

definition setRefreshToken :: "string \<Rightarrow> CredentialStore \<Rightarrow> CredentialStore" where
  "setRefreshToken t st = st\<lparr>refreshToken := Some t\<rparr>"

record TokenResponse =
  access_token :: string
  refresh_token :: "string option"
  token_type :: string
  expires_in :: nat

record Tag =
  tag_name :: string

record Conversation =
  tags :: "Tag list option"

text \<open>A JSON value returned by the API, as far as the client reads it.\<close>

datatype json = EmptyObject | ConversationJson Conversation | OtherJson string

text \<open>The body of a request: \<open>{tags: [...]}\<close>, or any other object, rendered.\<close>

datatype request_body = TagsBody "string list" | OtherBody string

text \<open>The form fields of a POST to the token endpoint.\<close>

datatype token_request =
    RefreshTokenGrant string string string
  | ClientCredentialsGrant string string

record api_request =
  http_method :: string
  path :: string
  searchParams :: "(string \<times> string) list"
  authorization :: string
  json_body :: "request_body option"

datatype http_call = TokenCall token_request | ApiCall api_request

text \<open>
  What \<open>fetch\<close> gives back. \<open>Rejected\<close>: the promise rejects (no response). Otherwise a
  response with its \<open>status\<close>, its \<open>ok\<close> flag and the outcome of \<open>response.json()\<close>, which
  the client reads as the expected type when \<open>ok\<close> holds and as an error body when not.
\<close>

datatype 'a parsed = SyntaxError string | Parsed 'a

datatype 'a reply =
    Rejected string
  | Ok nat "'a parsed"
  | NotOk nat "ApiErrorResponse parsed"

text \<open>
  The remote side: each endpoint answers a request, knowing the calls made before it.
\<close>

record network =
  token_endpoint :: "http_call list \<Rightarrow> token_request \<Rightarrow> TokenResponse reply"
  api_endpoint :: "http_call list \<Rightarrow> api_request \<Rightarrow> json reply"

text \<open>
  The state of a run: the field \<open>accessToken\<close> of the client object, the credential
  store, and the log of the HTTP calls issued so far.
\<close>

record session =
  accessToken :: "string option"
  auth :: CredentialStore
  calls :: "http_call list"

definition clearToken :: "session \<Rightarrow> session" where
  "clearToken s = s\<lparr>accessToken := None\<rparr>"

definition log_call :: "http_call \<Rightarrow> session \<Rightarrow> session" where
  "log_call c s = s\<lparr>calls := calls s @ [c]\<rparr>"

text \<open>
  The \<open>try\<close> block of \<open>refreshAccessToken\<close> (the \<open>refresh_token\<close> grant). \<open>Some t\<close>: the
  block returned \<open>t\<close>. \<open>None\<close>: control fell through, because \<open>fetch\<close> or \<open>json()\<close> threw
  inside the block or the response was not \<open>ok\<close>.
\<close>

definition refreshGrant ::
  "network \<Rightarrow> string \<Rightarrow> string \<Rightarrow> string \<Rightarrow> session \<Rightarrow> string option \<times> session" where
  "refreshGrant net client_id client_secret rt s =
     (let req = RefreshTokenGrant client_id client_secret rt;
          s1 = log_call (TokenCall req) s
      in case token_endpoint net (calls s) req of
           Ok _ (Parsed data) \<Rightarrow>
             (let st1 = setAccessToken (access_token data) (auth s1);
                  st2 = (if truthy (refresh_token data)
                         then setRefreshToken (str (refresh_token data)) st1 else st1)
              in (Some (access_token data),
                  s1\<lparr>auth := st2, accessToken := Some (access_token data)\<rparr>))
         | _ \<Rightarrow> (None, s1))"

text \<open>The rest of \<open>refreshAccessToken\<close>: the \<open>client_credentials\<close> grant.\<close>

definition clientCredentialsGrant ::
  "network \<Rightarrow> string \<Rightarrow> string \<Rightarrow> session \<Rightarrow> (thrown + string) \<times> session" where
  "clientCredentialsGrant net client_id client_secret s =
     (let req = ClientCredentialsGrant client_id client_secret;
          s1 = log_call (TokenCall req) s
      in case token_endpoint net (calls s) req of
           Rejected msg \<Rightarrow> (Inl (JsError msg), s1)
         | NotOk code (SyntaxError msg) \<Rightarrow> (Inl (JsError msg), s1)
         | NotOk code (Parsed e) \<Rightarrow> (Inl (ApiFailure e code), s1)
         | Ok _ (SyntaxError msg) \<Rightarrow> (Inl (JsError msg), s1)
         | Ok _ (Parsed data) \<Rightarrow>
             (Inr (access_token data),
              s1\<lparr>auth := setAccessToken (access_token data) (auth s1),
                 accessToken := Some (access_token data)\<rparr>))"

definition refreshAccessToken :: "network \<Rightarrow> session \<Rightarrow> (thrown + string) \<times> session" where
  "refreshAccessToken net s =
     (let id = appId (auth s); secret = appSecret (auth s); rt = refreshToken (auth s)
      in if \<not> truthy id \<or> \<not> truthy secret then
           (Inl (HelpScoutCliError ''Not configured. Please run: helpscout auth login''
                   (Some 401)), s)
         else if truthy rt then
           (case refreshGrant net (str id) (str secret) (str rt) s of
              (Some t, s1) \<Rightarrow> (Inr t, s1)
            | (None, s1) \<Rightarrow> clientCredentialsGrant net (str id) (str secret) s1)
         else clientCredentialsGrant net (str id) (str secret) s)"

definition getAccessToken :: "network \<Rightarrow> session \<Rightarrow> (thrown + string) \<times> session" where
  "getAccessToken net s =
     (if truthy (accessToken s) then (Inr (str (accessToken s)), s)
      else (let storedToken = storedAccessToken (auth s)
            in if truthy storedToken
               then (Inr (str storedToken), s\<lparr>accessToken := storedToken\<rparr>)
               else refreshAccessToken net s))"

text \<open>
  \<open>params\<close> is an object whose values may be \<open>undefined\<close>; every defined entry becomes
  a query parameter.
\<close>

definition searchParamsOf :: "(string \<times> string option) list option \<Rightarrow> (string \<times> string) list" where
  "searchParamsOf params =
     (case params of
        None \<Rightarrow> []
      | Some ps \<Rightarrow> List.map_filter (\<lambda>(k, v). map_option (Pair k) v) ps)"

text \<open>
  The call \<open>request\<close> hands to \<open>fetch\<close>: the URL (path and query), the method, the
  \<open>Authorization\<close> header and the body.
\<close>

definition fetchRequest ::
  "string \<Rightarrow> string \<Rightarrow> (string \<times> string option) list option \<Rightarrow> request_body option \<Rightarrow>
   string \<Rightarrow> api_request" where
  "fetchRequest meth pth params bdy token =
     \<lparr>http_method = meth, path = pth, searchParams = searchParamsOf params,
      authorization = ''Bearer '' @ token, json_body = bdy\<rparr>"

fun status :: "'a reply \<Rightarrow> nat" where
  "status (Ok code _) = code"
| "status (NotOk code _) = code"
| "status (Rejected _) = 0"

text \<open>
  \<open>request\<close>. The recursive call of the 401 branch passes \<open>retry: false\<close>, so it is the
  only one.
\<close>

function request ::
  "network \<Rightarrow> string \<Rightarrow> string \<Rightarrow> (string \<times> string option) list option \<Rightarrow>
   request_body option \<Rightarrow> bool \<Rightarrow> session \<Rightarrow> (thrown + json) \<times> session" where
  "request net meth pth params bdy retry s =
     (case getAccessToken net s of
        (Inl e, s1) \<Rightarrow> (Inl e, s1)
      | (Inr token, s1) \<Rightarrow>
          (let req = fetchRequest meth pth params bdy token;
               s2 = log_call (ApiCall req) s1
           in case api_endpoint net (calls s1) req of
                Rejected msg \<Rightarrow> (Inl (JsError msg), s2)
              | response \<Rightarrow>
                  if status response = 401 \<and> retry then
                    (case refreshAccessToken net (s2\<lparr>accessToken := None\<rparr>) of
                       (Inl e, s3) \<Rightarrow> (Inl e, s3)
                     | (Inr _, s3) \<Rightarrow> request net meth pth params bdy False s3)
                  else if status response = 204 then (Inr EmptyObject, s2)
                  else (case response of
                          NotOk code (Parsed e) \<Rightarrow> (Inl (ApiFailure e code), s2)
                        | NotOk code (SyntaxError _) \<Rightarrow> (Inl (ApiFailure emptyObject code), s2)
                        | Ok _ (Parsed v) \<Rightarrow> (Inr v, s2)
                        | Ok _ (SyntaxError msg) \<Rightarrow> (Inl (JsError msg), s2)
                        | Rejected msg \<Rightarrow> (Inl (JsError msg), s2))))"
  by pat_completeness auto
termination
  by (relation "measure (\<lambda>(net, meth, pth, params, bdy, retry, s). if retry then 1 else 0)") auto

declare request.simps [simp del]








text \<open>The API requests among the calls of a log, in order.\<close>

fun apiCalls :: "http_call list \<Rightarrow> api_request list" where
  "apiCalls [] = []"
| "apiCalls (ApiCall r # cs) = r # apiCalls cs"
| "apiCalls (TokenCall _ # cs) = apiCalls cs"

section \<open>The Pagination Walker\<close>

record PageInfo =
  number :: nat
  pageSize :: nat
  totalElements :: nat
  totalPages :: "nat option"

record 'a PagedResult =
  items :: "'a list"
  page :: PageInfo

text \<open>
  Modelled from the spec: the Pagination Walker (\<open>listAllConversations\<close> of the client,
  which is not among the sources). "Given a listing function \<open>(page) -> PagedResult<T>\<close>
  and a starting page of 1, repeatedly invoke it with the page number incremented by
  one, concatenating \<open>items\<close>, until the returned page's \<open>number\<close> reaches its
  \<open>totalPages\<close> (or \<open>totalPages\<close> is 0/absent, meaning a single implicit page)."

  The loop need not end, so it runs on fuel: one unit per call of the listing function.
  The result is the concatenated items (\<open>None\<close> when the fuel ran out first) and the page
  numbers requested, in order.
\<close>

definition lastPage :: "PageInfo \<Rightarrow> bool" where
  "lastPage pg = (case totalPages pg of None \<Rightarrow> True | Some t \<Rightarrow> t = 0 \<or> t \<le> number pg)"

fun walk :: "nat \<Rightarrow> (nat \<Rightarrow> 'a PagedResult) \<Rightarrow> nat \<Rightarrow> 'a list option \<times> nat list" where
  "walk 0 listing p = (None, [])"
| "walk (Suc fuel) listing p =
     (let result = listing p
      in if lastPage (page result) then (Some (items result), [p])
         else (case walk fuel listing (p + 1) of
                 (rest, requested) \<Rightarrow>
                   (map_option (\<lambda>r. items result @ r) rest, p # requested)))"

definition fetchAllPages :: "nat \<Rightarrow> (nat \<Rightarrow> 'a PagedResult) \<Rightarrow> 'a list option \<times> nat list" where
  "fetchAllPages fuel listing = walk fuel listing 1"

section \<open>The Conversation Summarizer (\<open>src/src/commands/conversations.ts\<close>)\<close>

text \<open>
  A thread as \<open>extractThreadInfo\<close> reads it. \<open>createdAt\<close> is the time value
  \<open>new Date(t.createdAt).getTime()\<close> of the thread's timestamp. \<open>Array.prototype.sort\<close>
  is stable, and so is \<open>sort_key\<close>.
\<close>

record Person =
  first :: "string option"
  last_name :: "string option"
  email :: "string option"








section \<open>Example sessions and networks\<close>

definition appStore :: CredentialStore where
  "appStore = \<lparr>appId = Some ''app-id'', appSecret = Some ''app-secret'',
               storedAccessToken = None, refreshToken = None\<rparr>"

definition freshSession :: session where
  "freshSession = \<lparr>accessToken = None, auth = appStore, calls = []\<rparr>"

definition staleSession :: session where
  "staleSession = \<lparr>accessToken = Some ''stale'', auth = appStore, calls = []\<rparr>"

text \<open>A refresh token is persisted, the application's id and secret are not.\<close>

definition unconfiguredSession :: session where
  "unconfiguredSession =
     \<lparr>accessToken = None,
      auth = \<lparr>appId = None, appSecret = None, storedAccessToken = None,
              refreshToken = Some ''refresh-1''\<rparr>,
      calls = []\<rparr>"

definition refreshableSession :: session where
  "refreshableSession =
     \<lparr>accessToken = None, auth = appStore\<lparr>refreshToken := Some ''refresh-1''\<rparr>, calls = []\<rparr>"

definition tokenData :: "string \<Rightarrow> TokenResponse" where
  "tokenData t = \<lparr>access_token = t, refresh_token = None, token_type = ''bearer'',
                  expires_in = 172800\<rparr>"

definition invalidClient :: ApiErrorResponse where
  "invalidClient = \<lparr>error = Some ''invalid_client'',
                    error_description = Some ''Invalid client credentials'',
                    message = None, embedded = None\<rparr>"

definition unauthorizedBody :: ApiErrorResponse where
  "unauthorizedBody = \<lparr>error = Some ''unauthorized'', error_description = None,
                       message = Some ''Token expired'', embedded = None\<rparr>"

text \<open>The token endpoint grants the token \<open>fresh\<close>; the API answers 401 to every call.\<close>

definition unauthorizedNetwork :: network where
  "unauthorizedNetwork =
     \<lparr>token_endpoint = (\<lambda>h r. Ok 200 (Parsed (tokenData ''fresh''))),
      api_endpoint = (\<lambda>h r. NotOk 401 (Parsed unauthorizedBody))\<rparr>"

text \<open>
  The application's credentials are revoked: the API answers 401 to every call and the
  token endpoint refuses every grant with status 400.
\<close>

definition revokedNetwork :: network where
  "revokedNetwork =
     \<lparr>token_endpoint = (\<lambda>h r. NotOk 400 (Parsed invalidClient)),
      api_endpoint = (\<lambda>h r. NotOk 401 (Parsed unauthorizedBody))\<rparr>"

text \<open>A gateway in front of the token endpoint answers 502 with an HTML page.\<close>

definition badGatewayNetwork :: network where
  "badGatewayNetwork =
     \<lparr>token_endpoint = (\<lambda>h r. NotOk 502 (SyntaxError ''Unexpected token < in JSON'')),
      api_endpoint = (\<lambda>h r. NotOk 502 (SyntaxError ''Unexpected token < in JSON''))\<rparr>"

text \<open>
  A healthy remote side: tokens are granted, a GET returns a conversation tagged
  \<open>urgent\<close> and \<open>billing\<close>, any other call answers 204 without a body.
\<close>

definition taggedConversation :: json where
  "taggedConversation =
     ConversationJson \<lparr>tags = Some [\<lparr>tag_name = ''urgent''\<rparr>, \<lparr>tag_name = ''billing''\<rparr>]\<rparr>"

definition healthyNetwork :: network where
  "healthyNetwork =
     \<lparr>token_endpoint = (\<lambda>h r. Ok 200 (Parsed (tokenData ''fresh''))),
      api_endpoint = (\<lambda>h r. if http_method r = ''GET'' then Ok 200 (Parsed taggedConversation)
                             else Ok 204 (SyntaxError ''Unexpected end of JSON input''))\<rparr>"

text \<open>Three pages of 50, 50 and 7 items, and a listing that reports no pages.\<close>

definition threePages :: "nat \<Rightarrow> nat PagedResult" where
  "threePages p =
     \<lparr>items = replicate (if p = 3 then 7 else 50) p,
      page = \<lparr>number = p, pageSize = 50, totalElements = 107, totalPages = Some 3\<rparr>\<rparr>"

definition emptyListing :: "nat \<Rightarrow> nat PagedResult" where
  "emptyListing p =
     \<lparr>items = [],
      page = \<lparr>number = p, pageSize = 50, totalElements = 0, totalPages = Some 0\<rparr>\<rparr>"






text \<open>An error body that carries two validation errors.\<close>

definition validationErrors :: ApiErrorResponse where
  "validationErrors =
     \<lparr>error = None, error_description = None, message = None,
      embedded = Some \<lparr>errors = Some
        [\<lparr>entry_path = Some ''subject'', entry_message = Some ''Subject is required'',
          rejectedValue = None\<rparr>,
         \<lparr>entry_path = Some ''body'', entry_message = Some ''Body is required'',
          rejectedValue = None\<rparr>]\<rparr>\<rparr>"

section \<open>Properties of the matcher and of \<open>sanitizeErrorMessage\<close>\<close>

subsection \<open>The matcher\<close>



























subsection \<open>Global replacement\<close>




lemma replaceAll_no_occurrence: "\<not> occurs P s \<Longrightarrow> replaceAll P r s = s"
  by (induction s) auto






subsection \<open>The four patterns\<close>

lemma char_of_upper:
  "char_of (65::nat) = CHR ''A''" "char_of (66::nat) = CHR ''B''" "char_of (67::nat) = CHR ''C''"
  "char_of (68::nat) = CHR ''D''" "char_of (69::nat) = CHR ''E''" "char_of (70::nat) = CHR ''F''"
  "char_of (71::nat) = CHR ''G''" "char_of (72::nat) = CHR ''H''" "char_of (73::nat) = CHR ''I''"
  "char_of (74::nat) = CHR ''J''" "char_of (75::nat) = CHR ''K''" "char_of (76::nat) = CHR ''L''"
  "char_of (77::nat) = CHR ''M''" "char_of (78::nat) = CHR ''N''" "char_of (79::nat) = CHR ''O''"
  "char_of (80::nat) = CHR ''P''" "char_of (81::nat) = CHR ''Q''" "char_of (82::nat) = CHR ''R''"
  "char_of (83::nat) = CHR ''S''" "char_of (84::nat) = CHR ''T''" "char_of (85::nat) = CHR ''U''"
  "char_of (86::nat) = CHR ''V''" "char_of (87::nat) = CHR ''W''" "char_of (88::nat) = CHR ''X''"
  "char_of (89::nat) = CHR ''Y''" "char_of (90::nat) = CHR ''Z''"
  by code_simp+








lemma redact_safe: "\<not> sensitive s \<Longrightarrow> redact s = s"
  by (simp add: sensitive_def redact_def sensitivePatterns_def replaceAll_no_occurrence)

lemma sanitizeErrorMessage_safe:
  "\<not> sensitive s \<Longrightarrow> length s \<le> 500 \<Longrightarrow> sanitizeErrorMessage s = s"
  by (simp add: sanitizeErrorMessage_def redact_safe)




subsection \<open>Character classes\<close>















subsection \<open>The matches of the four patterns\<close>


















subsection \<open>The four replacements\<close>











section \<open>Properties of \<open>sanitizeApiError\<close>\<close>

lemma embeddedMessages_eq:
  "embeddedMessages es =
     map str (filter truthy
       (map (\<lambda>e. if truthy (entry_message e) then entry_message e else entry_path e) es))"
  by (induction es) (auto simp: embeddedMessages_def or_else_def List.map_filter_simps
      truthy_def str_def split: option.splits)

lemma default_detail_safe: "sanitizeErrorMessage ''An error occurred'' = ''An error occurred''"
  by (rule sanitizeErrorMessage_safe)
     (simp_all add: sensitive_def sensitivePatterns_def bearerPattern_def tokenPattern_def
      clientSecretPattern_def authorizationPattern_def canonicalize_def char_of_upper)

text \<open>
  Claim C4. \<open>sanitizeApiError\<close> answers a value that is not an object with the name
  \<open>api_error\<close> and the detail "An error occurred". For an object the name is its
  \<open>error\<close> when that is provided and \<open>api_error\<close> otherwise, and the detail is the
  sanitized form of: \<open>error_description\<close> when provided; else \<open>message\<close> when provided;
  else, when \<open>_embedded.errors\<close> is a non-empty array, the non-blank values
  \<open>message || path\<close> of its entries joined with "; "; else "An error occurred". An
  object that provides none of these yields the same default as a non-object.
  "Provided" is JavaScript truthiness: a non-empty string. The sanitized form of a text
  of at most 500 characters without a sensitive pattern is the text itself.
\<close>

theorem sanitizeApiError_detail_and_name:
  "(\<not> isErrorObject v \<longrightarrow>
      sanitizeApiError v = \<lparr>name = ''api_error'', detail = ''An error occurred''\<rparr>)
   \<and> name (sanitizeApiError (JsObject obj)) =
       (if truthy (error obj) then str (error obj) else ''api_error'')
   \<and> (truthy (error_description obj) \<longrightarrow>
        detail (sanitizeApiError (JsObject obj)) =
          sanitizeErrorMessage (str (error_description obj)))
   \<and> (\<not> truthy (error_description obj) \<and> truthy (message obj) \<longrightarrow>
        detail (sanitizeApiError (JsObject obj)) = sanitizeErrorMessage (str (message obj)))
   \<and> (\<forall>es. \<not> truthy (error_description obj) \<and> \<not> truthy (message obj)
          \<and> embeddedErrors obj = Some es \<and> es \<noteq> [] \<longrightarrow>
        detail (sanitizeApiError (JsObject obj)) =
          sanitizeErrorMessage
            (join ''; ''
               (map str (filter truthy
                  (map (\<lambda>e. if truthy (entry_message e) then entry_message e
                            else entry_path e) es)))))
   \<and> (\<not> truthy (error_description obj) \<and> \<not> truthy (message obj)
        \<and> (embeddedErrors obj = None \<or> embeddedErrors obj = Some []) \<longrightarrow>
        detail (sanitizeApiError (JsObject obj)) = ''An error occurred'')
   \<and> (\<not> truthy (error obj) \<and> \<not> truthy (error_description obj) \<and> \<not> truthy (message obj)
        \<and> (embeddedErrors obj = None \<or> embeddedErrors obj = Some []) \<longrightarrow>
        sanitizeApiError (JsObject obj) =
          \<lparr>name = ''api_error'', detail = ''An error occurred''\<rparr>)
   \<and> (\<forall>x. \<not> sensitive x \<and> length x \<le> 500 \<longrightarrow> sanitizeErrorMessage x = x)"
proof (intro conjI allI impI)
  show "sanitizeApiError v = \<lparr>name = ''api_error'', detail = ''An error occurred''\<rparr>"
    if "\<not> isErrorObject v"
    using that by (cases v) (simp_all add: sanitizeApiError_def)
  show "name (sanitizeApiError (JsObject obj)) =
       (if truthy (error obj) then str (error obj) else ''api_error'')"
    by (simp add: sanitizeApiError_def Let_def)
  show "detail (sanitizeApiError (JsObject obj)) =
          sanitizeErrorMessage (str (error_description obj))"
    if "truthy (error_description obj)"
    using that by (simp add: sanitizeApiError_def Let_def)
  show "detail (sanitizeApiError (JsObject obj)) = sanitizeErrorMessage (str (message obj))"
    if "\<not> truthy (error_description obj) \<and> truthy (message obj)"
    using that by (simp add: sanitizeApiError_def Let_def)
  show "detail (sanitizeApiError (JsObject obj)) =
          sanitizeErrorMessage
            (join ''; ''
               (map str (filter truthy
                  (map (\<lambda>e. if truthy (entry_message e) then entry_message e
                            else entry_path e) es))))"
    if "\<not> truthy (error_description obj) \<and> \<not> truthy (message obj)
          \<and> embeddedErrors obj = Some es \<and> es \<noteq> []" for es
    using that by (simp add: sanitizeApiError_def Let_def embeddedMessages_eq)
  show "detail (sanitizeApiError (JsObject obj)) = ''An error occurred''"
    if "\<not> truthy (error_description obj) \<and> \<not> truthy (message obj)
        \<and> (embeddedErrors obj = None \<or> embeddedErrors obj = Some [])"
    using that by (auto simp: sanitizeApiError_def Let_def default_detail_safe)
  show "sanitizeApiError (JsObject obj) =
          \<lparr>name = ''api_error'', detail = ''An error occurred''\<rparr>"
    if "\<not> truthy (error obj) \<and> \<not> truthy (error_description obj) \<and> \<not> truthy (message obj)
        \<and> (embeddedErrors obj = None \<or> embeddedErrors obj = Some [])"
    using that by (auto simp: sanitizeApiError_def Let_def default_detail_safe)
  show "sanitizeErrorMessage x = x" if "\<not> sensitive x \<and> length x \<le> 500" for x
    using that by (simp add: sanitizeErrorMessage_safe)
qed

lemma example_details_safe:
  "\<not> sensitive ''Invalid client credentials''"
  "\<not> sensitive ''Subject is required; Body is required''"
  by (simp_all add: sensitive_def sensitivePatterns_def bearerPattern_def tokenPattern_def
      clientSecretPattern_def authorizationPattern_def canonicalize_def char_of_upper
      is_space_def is_word_def)

text \<open>Witness: the error bodies of the tests.\<close>

theorem sanitizeApiError_witness:
  "sanitizeApiError (JsObject invalidClient) =
     \<lparr>name = ''invalid_client'', detail = ''Invalid client credentials''\<rparr>
   \<and> detail (sanitizeApiError (JsObject validationErrors)) =
       ''Subject is required; Body is required''
   \<and> sanitizeApiError (JsObject emptyObject) =
       \<lparr>name = ''api_error'', detail = ''An error occurred''\<rparr>
   \<and> sanitizeApiError (JsString ''string error'') =
       \<lparr>name = ''api_error'', detail = ''An error occurred''\<rparr>"
proof -
  note T = sanitizeApiError_detail_and_name
  have safe: "sanitizeErrorMessage ''Invalid client credentials'' = ''Invalid client credentials''"
    "sanitizeErrorMessage ''Subject is required; Body is required'' =
       ''Subject is required; Body is required''"
    using T [of JsNull emptyObject] example_details_safe by simp_all
  from T [of JsNull invalidClient]
  have "name (sanitizeApiError (JsObject invalidClient)) = ''invalid_client''
      \<and> detail (sanitizeApiError (JsObject invalidClient)) = ''Invalid client credentials''"
    by (simp add: invalidClient_def truthy_def str_def safe)
  then have 1: "sanitizeApiError (JsObject invalidClient) =
     \<lparr>name = ''invalid_client'', detail = ''Invalid client credentials''\<rparr>"
    by (cases "sanitizeApiError (JsObject invalidClient)") simp
  from T [of JsNull validationErrors]
  have 2: "detail (sanitizeApiError (JsObject validationErrors)) =
       ''Subject is required; Body is required''"
    by (simp add: validationErrors_def embeddedErrors_def truthy_def str_def safe)
  from T [of JsNull emptyObject]
  have 3: "sanitizeApiError (JsObject emptyObject) =
       \<lparr>name = ''api_error'', detail = ''An error occurred''\<rparr>"
    by (simp add: emptyObject_def embeddedErrors_def truthy_def)
  from T [of "JsString ''string error''" emptyObject]
  have 4: "sanitizeApiError (JsString ''string error'') =
       \<lparr>name = ''api_error'', detail = ''An error occurred''\<rparr>"
    by simp
  from 1 2 3 4 show ?thesis by simp
qed

section \<open>Properties of the Auth Session\<close>

lemma getAccessToken_cached:
  "truthy (accessToken s) \<Longrightarrow> getAccessToken net s = (Inr (str (accessToken s)), s)"
  by (simp add: getAccessToken_def)

lemma getAccessToken_stored:
  "\<not> truthy (accessToken s) \<Longrightarrow> truthy (storedAccessToken (auth s)) \<Longrightarrow>
   getAccessToken net s =
     (Inr (str (storedAccessToken (auth s))), s\<lparr>accessToken := storedAccessToken (auth s)\<rparr>)"
  by (simp add: getAccessToken_def Let_def)

lemma getAccessToken_neither:
  "\<not> truthy (accessToken s) \<Longrightarrow> \<not> truthy (storedAccessToken (auth s)) \<Longrightarrow>
   getAccessToken net s = refreshAccessToken net s"
  by (simp add: getAccessToken_def Let_def)

lemma refreshAccessToken_no_refresh_token:
  "truthy (appId (auth s)) \<Longrightarrow> truthy (appSecret (auth s)) \<Longrightarrow>
   \<not> truthy (refreshToken (auth s)) \<Longrightarrow>
   refreshAccessToken net s =
     clientCredentialsGrant net (str (appId (auth s))) (str (appSecret (auth s))) s"
  by (simp add: refreshAccessToken_def Let_def)

lemma refreshGrant_calls:
  "refreshGrant net i sec rt s = (r, s') \<Longrightarrow>
   calls s' = calls s @ [TokenCall (RefreshTokenGrant i sec rt)]"
  by (auto simp: refreshGrant_def Let_def log_call_def split: reply.splits parsed.splits)

lemma clientCredentialsGrant_calls:
  "clientCredentialsGrant net i sec s = (r, s') \<Longrightarrow>
   calls s' = calls s @ [TokenCall (ClientCredentialsGrant i sec)]"
  by (auto simp: clientCredentialsGrant_def Let_def log_call_def split: reply.splits parsed.splits)

lemma clientCredentialsGrant_ok:
  "token_endpoint net (calls s) (ClientCredentialsGrant i sec) = Ok code (Parsed data) \<Longrightarrow>
   clientCredentialsGrant net i sec s =
     (Inr (access_token data),
      (log_call (TokenCall (ClientCredentialsGrant i sec)) s)
        \<lparr>auth := setAccessToken (access_token data) (auth s),
         accessToken := Some (access_token data)\<rparr>)"
  by (simp add: clientCredentialsGrant_def Let_def log_call_def)

lemma clientCredentialsGrant_not_ok:
  "token_endpoint net (calls s) (ClientCredentialsGrant i sec) = NotOk code (Parsed e) \<Longrightarrow>
   clientCredentialsGrant net i sec s =
     (Inl (ApiFailure e code), log_call (TokenCall (ClientCredentialsGrant i sec)) s)"
  by (simp add: clientCredentialsGrant_def Let_def)

lemma clientCredentialsGrant_not_json:
  "token_endpoint net (calls s) (ClientCredentialsGrant i sec) = NotOk code (SyntaxError m) \<Longrightarrow>
   clientCredentialsGrant net i sec s =
     (Inl (JsError m), log_call (TokenCall (ClientCredentialsGrant i sec)) s)"
  by (simp add: clientCredentialsGrant_def Let_def)

lemma refreshGrant_falls_through:
  "\<forall>code data. token_endpoint net (calls s) (RefreshTokenGrant i sec rt) \<noteq> Ok code (Parsed data) \<Longrightarrow>
   refreshGrant net i sec rt s = (None, log_call (TokenCall (RefreshTokenGrant i sec rt)) s)"
  by (auto simp: refreshGrant_def Let_def split: reply.splits parsed.splits)

lemma refreshGrant_ok:
  "token_endpoint net (calls s) (RefreshTokenGrant i sec rt) = Ok code (Parsed data) \<Longrightarrow>
   refreshGrant net i sec rt s =
     (Some (access_token data),
      (log_call (TokenCall (RefreshTokenGrant i sec rt)) s)
        \<lparr>auth := (if truthy (refresh_token data)
                   then setRefreshToken (str (refresh_token data))
                          (setAccessToken (access_token data) (auth s))
                   else setAccessToken (access_token data) (auth s)),
         accessToken := Some (access_token data)\<rparr>)"
  by (simp add: refreshGrant_def Let_def log_call_def)

lemma refreshAccessToken_with_refresh_token:
  "truthy (appId (auth s)) \<Longrightarrow> truthy (appSecret (auth s)) \<Longrightarrow> truthy (refreshToken (auth s)) \<Longrightarrow>
   refreshAccessToken net s =
     (case refreshGrant net (str (appId (auth s))) (str (appSecret (auth s)))
             (str (refreshToken (auth s))) s of
        (Some t, s1) \<Rightarrow> (Inr t, s1)
      | (None, s1) \<Rightarrow>
          clientCredentialsGrant net (str (appId (auth s))) (str (appSecret (auth s))) s1)"
  by (simp add: refreshAccessToken_def Let_def)

lemma refreshGrant_accessToken:
  "refreshGrant net i sec rt s = (Some t, s') \<Longrightarrow> accessToken s' = Some t"
  by (auto simp: refreshGrant_def Let_def split: reply.splits parsed.splits)

lemma clientCredentialsGrant_accessToken:
  "clientCredentialsGrant net i sec s = (Inr t, s') \<Longrightarrow> accessToken s' = Some t"
  by (auto simp: clientCredentialsGrant_def Let_def split: reply.splits parsed.splits)

lemma refreshAccessToken_accessToken:
  "refreshAccessToken net s = (Inr t, s') \<Longrightarrow> accessToken s' = Some t"
  by (auto simp: refreshAccessToken_def Let_def refreshGrant_accessToken
        clientCredentialsGrant_accessToken split: if_splits prod.splits option.splits)

lemma apiCalls_append: "apiCalls (xs @ ys) = apiCalls xs @ apiCalls ys"
  by (induction xs rule: apiCalls.induct) auto

lemma refreshAccessToken_apiCalls:
  "refreshAccessToken net s = (r, s') \<Longrightarrow> apiCalls (calls s') = apiCalls (calls s)"
  by (auto simp: refreshAccessToken_def Let_def apiCalls_append
      split: if_splits prod.splits option.splits
      dest!: refreshGrant_calls clientCredentialsGrant_calls)

lemma not_configured_message_safe:
  "sanitizeErrorMessage ''Not configured. Please run: helpscout auth login'' =
     ''Not configured. Please run: helpscout auth login''"
  by (simp add: sanitizeErrorMessage_def redact_def sensitivePatterns_def bearerPattern_def
      tokenPattern_def clientSecretPattern_def authorizationPattern_def REDACTED_def
      canonicalize_def is_space_def is_word_def)

text \<open>
  Claim C7. In every credential state in which \<open>appId\<close> or \<open>appSecret\<close> is absent
  (\<open>undefined\<close>, \<open>null\<close> or the empty string: the test is \<open>!appId || !appSecret\<close>),
  \<open>refreshAccessToken\<close> throws the \<open>HelpScoutCliError\<close> "Not configured. Please run:
  helpscout auth login" with status code 401 and leaves the session as it was, so no
  HTTP call is logged; \<open>handleHelpScoutError\<close> turns that error into the canonical error
  named \<open>cli_error\<close> with status code 401 and the same message.
\<close>

theorem refreshAccessToken_not_configured:
  assumes "\<not> truthy (appId (auth s)) \<or> \<not> truthy (appSecret (auth s))"
  shows "refreshAccessToken net s =
           (Inl (HelpScoutCliError ''Not configured. Please run: helpscout auth login''
                   (Some 401)), s)
         \<and> calls (snd (refreshAccessToken net s)) = calls s
         \<and> handleHelpScoutError
              (HelpScoutCliError ''Not configured. Please run: helpscout auth login''
                 (Some 401)) =
            \<lparr>name = ''cli_error'',
             detail = ''Not configured. Please run: helpscout auth login'',
             statusCode = 401\<rparr>"
proof -
  have r: "refreshAccessToken net s =
           (Inl (HelpScoutCliError ''Not configured. Please run: helpscout auth login''
                   (Some 401)), s)"
    using assms by (auto simp: refreshAccessToken_def Let_def)
  have h: "handleHelpScoutError
              (HelpScoutCliError ''Not configured. Please run: helpscout auth login''
                 (Some 401)) =
            \<lparr>name = ''cli_error'',
             detail = ''Not configured. Please run: helpscout auth login'',
             statusCode = 401\<rparr>"
    by (simp add: not_configured_message_safe formatErrorResponse_def code_or_def)
  show ?thesis using r h by simp
qed

text \<open>Witness: a store that holds a refresh token and neither id nor secret.\<close>

theorem refreshAccessToken_not_configured_witness:
  "appId (auth unconfiguredSession) = None
   \<and> refreshAccessToken revokedNetwork unconfiguredSession =
       (Inl (HelpScoutCliError ''Not configured. Please run: helpscout auth login''
               (Some 401)), unconfiguredSession)
   \<and> calls (snd (refreshAccessToken revokedNetwork unconfiguredSession)) = []"
proof -
  have h: "\<not> truthy (appId (auth unconfiguredSession))
      \<or> \<not> truthy (appSecret (auth unconfiguredSession))"
    by (simp add: unconfiguredSession_def truthy_def)
  have c: "calls unconfiguredSession = []"
    by (simp add: unconfiguredSession_def)
  from refreshAccessToken_not_configured [OF h, of revokedNetwork] c
  show ?thesis by (simp add: unconfiguredSession_def)
qed

text \<open>
  Claim C8. \<open>getAccessToken\<close> returns the cached token of the client object when there
  is one, leaving the session (and so the log of HTTP calls) unchanged; otherwise, when
  the store holds an access token, it caches and returns that one, again without an
  HTTP call; only when neither exists does it run \<open>refreshAccessToken\<close>. For a store
  with \<open>appId\<close> and \<open>appSecret\<close> and no token at all, the call issues exactly one HTTP
  call, the \<open>client_credentials\<close> exchange; when the token endpoint answers it with a
  token, that token is returned, cached and persisted, and a second \<open>getAccessToken\<close>
  returns it and changes nothing (no HTTP call). "A token is present" is JavaScript
  truthiness: the empty string counts as no token.
\<close>

theorem getAccessToken_cache_then_store_then_authenticate:
  "(truthy (accessToken s) \<longrightarrow> getAccessToken net s = (Inr (str (accessToken s)), s))
   \<and> (\<not> truthy (accessToken s) \<and> truthy (storedAccessToken (auth s)) \<longrightarrow>
        getAccessToken net s =
          (Inr (str (storedAccessToken (auth s))), s\<lparr>accessToken := storedAccessToken (auth s)\<rparr>))
   \<and> (\<not> truthy (accessToken s) \<and> \<not> truthy (storedAccessToken (auth s)) \<longrightarrow>
        getAccessToken net s = refreshAccessToken net s)
   \<and> (truthy (appId (auth s)) \<and> truthy (appSecret (auth s)) \<and> \<not> truthy (accessToken s)
        \<and> \<not> truthy (storedAccessToken (auth s)) \<and> \<not> truthy (refreshToken (auth s)) \<longrightarrow>
        calls (snd (getAccessToken net s)) =
          calls s @ [TokenCall (ClientCredentialsGrant (str (appId (auth s))) (str (appSecret (auth s))))]
        \<and> (\<forall>code data.
              token_endpoint net (calls s)
                (ClientCredentialsGrant (str (appId (auth s))) (str (appSecret (auth s)))) =
                Ok code (Parsed data) \<and> access_token data \<noteq> [] \<longrightarrow>
              fst (getAccessToken net s) = Inr (access_token data)
              \<and> accessToken (snd (getAccessToken net s)) = Some (access_token data)
              \<and> storedAccessToken (auth (snd (getAccessToken net s))) = Some (access_token data)
              \<and> getAccessToken net (snd (getAccessToken net s)) =
                  (Inr (access_token data), snd (getAccessToken net s))))"
proof (intro conjI impI allI)
  show "truthy (accessToken s) \<Longrightarrow> getAccessToken net s = (Inr (str (accessToken s)), s)"
    by (rule getAccessToken_cached)
next
  show "\<not> truthy (accessToken s) \<and> truthy (storedAccessToken (auth s)) \<Longrightarrow>
        getAccessToken net s =
          (Inr (str (storedAccessToken (auth s))), s\<lparr>accessToken := storedAccessToken (auth s)\<rparr>)"
    by (simp add: getAccessToken_stored)
next
  show "\<not> truthy (accessToken s) \<and> \<not> truthy (storedAccessToken (auth s)) \<Longrightarrow>
        getAccessToken net s = refreshAccessToken net s"
    by (simp add: getAccessToken_neither)
next
  assume a: "truthy (appId (auth s)) \<and> truthy (appSecret (auth s)) \<and> \<not> truthy (accessToken s)
        \<and> \<not> truthy (storedAccessToken (auth s)) \<and> \<not> truthy (refreshToken (auth s))"
  then have g: "getAccessToken net s =
      clientCredentialsGrant net (str (appId (auth s))) (str (appSecret (auth s))) s"
    by (simp add: getAccessToken_neither refreshAccessToken_no_refresh_token)
  show "calls (snd (getAccessToken net s)) =
          calls s @ [TokenCall (ClientCredentialsGrant (str (appId (auth s))) (str (appSecret (auth s))))]"
    unfolding g by (rule clientCredentialsGrant_calls) (rule surjective_pairing)
  fix code data
  assume ok: "token_endpoint net (calls s)
                (ClientCredentialsGrant (str (appId (auth s))) (str (appSecret (auth s)))) =
                Ok code (Parsed data) \<and> access_token data \<noteq> []"
  then have r: "getAccessToken net s =
     (Inr (access_token data),
      (log_call (TokenCall (ClientCredentialsGrant (str (appId (auth s))) (str (appSecret (auth s))))) s)
        \<lparr>auth := setAccessToken (access_token data) (auth s),
         accessToken := Some (access_token data)\<rparr>)"
    unfolding g by (simp add: clientCredentialsGrant_ok)
  show "fst (getAccessToken net s) = Inr (access_token data)" by (simp add: r)
  show "accessToken (snd (getAccessToken net s)) = Some (access_token data)" by (simp add: r)
  show "storedAccessToken (auth (snd (getAccessToken net s))) = Some (access_token data)"
    by (simp add: r setAccessToken_def)
  show "getAccessToken net (snd (getAccessToken net s)) =
                  (Inr (access_token data), snd (getAccessToken net s))"
    using ok by (subst getAccessToken_cached) (simp_all add: r truthy_def str_def)
qed

text \<open>Witness: a session with a cached token, and a fresh session on a granting network.\<close>

theorem getAccessToken_witness:
  "getAccessToken healthyNetwork staleSession = (Inr ''stale'', staleSession)
   \<and> fst (getAccessToken healthyNetwork freshSession) = Inr ''fresh''
   \<and> calls (snd (getAccessToken healthyNetwork freshSession)) =
       [TokenCall (ClientCredentialsGrant ''app-id'' ''app-secret'')]
   \<and> accessToken (snd (getAccessToken healthyNetwork freshSession)) = Some ''fresh''
   \<and> getAccessToken healthyNetwork (snd (getAccessToken healthyNetwork freshSession)) =
       (Inr ''fresh'', snd (getAccessToken healthyNetwork freshSession))"
proof -
  have f: "truthy (appId (auth freshSession)) \<and> truthy (appSecret (auth freshSession))
        \<and> \<not> truthy (accessToken freshSession)
        \<and> \<not> truthy (storedAccessToken (auth freshSession))
        \<and> \<not> truthy (refreshToken (auth freshSession))"
    by (simp add: freshSession_def appStore_def truthy_def)
  have i: "str (appId (auth freshSession)) = ''app-id''"
    "str (appSecret (auth freshSession)) = ''app-secret''" "calls freshSession = []"
    "access_token (tokenData ''fresh'') = ''fresh''"
    by (simp_all add: freshSession_def appStore_def str_def tokenData_def)
  have t: "token_endpoint healthyNetwork (calls freshSession)
             (ClientCredentialsGrant (str (appId (auth freshSession))) (str (appSecret (auth freshSession))))
           = Ok 200 (Parsed (tokenData ''fresh'')) \<and> access_token (tokenData ''fresh'') \<noteq> []"
    by (simp add: healthyNetwork_def tokenData_def)
  have c: "truthy (accessToken staleSession)" "str (accessToken staleSession) = ''stale''"
    by (simp_all add: staleSession_def truthy_def str_def)
  note T = getAccessToken_cache_then_store_then_authenticate
  from T [of staleSession healthyNetwork] c
  have 1: "getAccessToken healthyNetwork staleSession = (Inr ''stale'', staleSession)"
    by simp
  from T [of freshSession healthyNetwork] f
  have A: "calls (snd (getAccessToken healthyNetwork freshSession)) =
          calls freshSession @ [TokenCall (ClientCredentialsGrant (str (appId (auth freshSession)))
             (str (appSecret (auth freshSession))))]"
    and B: "\<forall>code data.
              token_endpoint healthyNetwork (calls freshSession)
                (ClientCredentialsGrant (str (appId (auth freshSession))) (str (appSecret (auth freshSession)))) =
                Ok code (Parsed data) \<and> access_token data \<noteq> [] \<longrightarrow>
              fst (getAccessToken healthyNetwork freshSession) = Inr (access_token data)
              \<and> accessToken (snd (getAccessToken healthyNetwork freshSession)) = Some (access_token data)
              \<and> storedAccessToken (auth (snd (getAccessToken healthyNetwork freshSession))) = Some (access_token data)
              \<and> getAccessToken healthyNetwork (snd (getAccessToken healthyNetwork freshSession)) =
                  (Inr (access_token data), snd (getAccessToken healthyNetwork freshSession))"
    by blast+
  from B t have C: "fst (getAccessToken healthyNetwork freshSession) = Inr (access_token (tokenData ''fresh''))
              \<and> accessToken (snd (getAccessToken healthyNetwork freshSession)) = Some (access_token (tokenData ''fresh''))
              \<and> getAccessToken healthyNetwork (snd (getAccessToken healthyNetwork freshSession)) =
                  (Inr (access_token (tokenData ''fresh'')), snd (getAccessToken healthyNetwork freshSession))"
    by blast
  from 1 A C show ?thesis by (simp add: i)
qed


section \<open>Properties of the Request Executor\<close>

lemma request_401_retry:
  assumes "getAccessToken net s = (Inr token, s1)"
      and "status (api_endpoint net (calls s1) (fetchRequest meth pth params bdy token)) = 401"
  shows "request net meth pth params bdy True s =
           (case refreshAccessToken net
                   (clearToken (log_call (ApiCall (fetchRequest meth pth params bdy token)) s1)) of
              (Inl e, s3) \<Rightarrow> (Inl e, s3)
            | (Inr t, s3) \<Rightarrow> request net meth pth params bdy False s3)"
  using assms
  by (subst request.simps)
     (auto simp: Let_def clearToken_def split: reply.splits prod.splits sum.splits)

lemma request_no_retry:
  assumes "getAccessToken net s = (Inr token, s1)"
  shows "request net meth pth params bdy False s =
           (case api_endpoint net (calls s1) (fetchRequest meth pth params bdy token) of
              Rejected msg \<Rightarrow> Inl (JsError msg)
            | Ok code res \<Rightarrow>
                if code = 204 then Inr EmptyObject
                else (case res of Parsed v \<Rightarrow> Inr v | SyntaxError msg \<Rightarrow> Inl (JsError msg))
            | NotOk code res \<Rightarrow>
                if code = 204 then Inr EmptyObject
                else Inl (ApiFailure (case res of Parsed e \<Rightarrow> e | SyntaxError _ \<Rightarrow> emptyObject)
                            code),
            log_call (ApiCall (fetchRequest meth pth params bdy token)) s1)"
  using assms
  by (subst request.simps) (auto simp: Let_def split: reply.splits parsed.splits)


text \<open>
  Claim C9. \<open>clearToken\<close> sets the field \<open>accessToken\<close> of the client object to \<open>null\<close>
  and nothing else: the credential store, with its persisted refresh token, and the
  log of calls are as before. On the 401 path of \<open>request\<close> the assignment
  \<open>this.accessToken = null\<close> has the same effect: the session handed to the forced
  \<open>refreshAccessToken\<close> is \<open>clearToken\<close> of the session after the call, and its store is
  the one the call left.
\<close>

theorem clearToken_keeps_store:
  "auth (clearToken s) = auth s
   \<and> calls (clearToken s) = calls s
   \<and> accessToken (clearToken s) = None
   \<and> (getAccessToken net s = (Inr token, s1)
        \<and> status (api_endpoint net (calls s1) (fetchRequest meth pth params bdy token)) = 401
      \<longrightarrow> request net meth pth params bdy True s =
            (case refreshAccessToken net
                    (clearToken (log_call (ApiCall (fetchRequest meth pth params bdy token)) s1)) of
               (Inl e, s3) \<Rightarrow> (Inl e, s3)
             | (Inr t, s3) \<Rightarrow> request net meth pth params bdy False s3)
          \<and> auth (clearToken (log_call (ApiCall (fetchRequest meth pth params bdy token)) s1))
              = auth s1)"
  by (auto simp: clearToken_def log_call_def request_401_retry [unfolded clearToken_def log_call_def])

lemma staleSession_token:
  "getAccessToken net staleSession = (Inr ''stale'', staleSession)"
  by (simp add: getAccessToken_def staleSession_def truthy_def str_def)

text \<open>Witness: a store with a refresh token, and a call answered 401.\<close>

theorem clearToken_keeps_store_witness:
  "auth (clearToken (staleSession\<lparr>auth := appStore\<lparr>refreshToken := Some ''refresh-1''\<rparr>\<rparr>))
     = appStore\<lparr>refreshToken := Some ''refresh-1''\<rparr>
   \<and> getAccessToken unauthorizedNetwork staleSession = (Inr ''stale'', staleSession)
   \<and> status (api_endpoint unauthorizedNetwork (calls staleSession)
        (fetchRequest ''GET'' ''/conversations'' None None ''stale'')) = 401
   \<and> auth (clearToken (log_call
        (ApiCall (fetchRequest ''GET'' ''/conversations'' None None ''stale'')) staleSession))
      = appStore"
proof -
  have g: "getAccessToken unauthorizedNetwork staleSession = (Inr ''stale'', staleSession)"
    by (rule staleSession_token)
  have u: "status (api_endpoint unauthorizedNetwork (calls staleSession)
        (fetchRequest ''GET'' ''/conversations'' None None ''stale'')) = 401"
    by (simp add: unauthorizedNetwork_def)
  have a: "auth staleSession = appStore" by (simp add: staleSession_def)
  from clearToken_keeps_store
    [of "staleSession\<lparr>auth := appStore\<lparr>refreshToken := Some ''refresh-1''\<rparr>\<rparr>"]
  have 1: "auth (clearToken (staleSession\<lparr>auth := appStore\<lparr>refreshToken := Some ''refresh-1''\<rparr>\<rparr>))
     = appStore\<lparr>refreshToken := Some ''refresh-1''\<rparr>"
    by simp
  from clearToken_keeps_store
    [of staleSession unauthorizedNetwork "''stale''" staleSession "''GET''" "''/conversations''" None None] g u
  have 2: "auth (clearToken (log_call
        (ApiCall (fetchRequest ''GET'' ''/conversations'' None None ''stale'')) staleSession))
      = auth staleSession"
    by blast
  from 1 2 g u a show ?thesis by simp
qed


text \<open>
  Claim C1, amended. Let a request with \<open>retry = true\<close> get a token and let the
  response to its call have status 401. Then the cached token is cleared and
  \<open>refreshAccessToken\<close> runs. When that fails, its failure is raised and the call is not
  issued again. When it yields a non-empty token, the call is issued again exactly
  once, with \<open>retry = false\<close> and the same method, path, parameters and body under the
  new token; if the response to the second call is a 401 as well, the error body (the
  empty object when the body is not JSON) with status code 401 is raised, and the log
  holds these two API calls and no third.
\<close>

theorem request_retries_once_after_401:
  assumes first: "getAccessToken net s = (Inr token, s1)"
      and unauthorized:
        "status (api_endpoint net (calls s1) (fetchRequest meth pth params bdy token)) = 401"
  shows "(\<forall>e s3.
            refreshAccessToken net
              (clearToken (log_call (ApiCall (fetchRequest meth pth params bdy token)) s1))
              = (Inl e, s3)
            \<longrightarrow> request net meth pth params bdy True s = (Inl e, s3)
                \<and> apiCalls (calls s3) =
                    apiCalls (calls s1) @ [fetchRequest meth pth params bdy token])
       \<and> (\<forall>token' s3.
            refreshAccessToken net
              (clearToken (log_call (ApiCall (fetchRequest meth pth params bdy token)) s1))
              = (Inr token', s3) \<and> token' \<noteq> []
            \<longrightarrow> request net meth pth params bdy True s = request net meth pth params bdy False s3
                \<and> apiCalls (calls (snd (request net meth pth params bdy True s))) =
                    apiCalls (calls s1) @ [fetchRequest meth pth params bdy token,
                                           fetchRequest meth pth params bdy token']
                \<and> (\<forall>res.
                      api_endpoint net (calls s3) (fetchRequest meth pth params bdy token')
                        = NotOk 401 res
                      \<longrightarrow> fst (request net meth pth params bdy True s) =
                            Inl (ApiFailure
                                   (case res of Parsed e \<Rightarrow> e | SyntaxError _ \<Rightarrow> emptyObject)
                                   401)))"
proof (intro conjI allI impI)
  fix e s3
  assume r: "refreshAccessToken net
              (clearToken (log_call (ApiCall (fetchRequest meth pth params bdy token)) s1))
              = (Inl e, s3)"
  show "request net meth pth params bdy True s = (Inl e, s3)"
    by (simp add: request_401_retry [OF first unauthorized] r)
  show "apiCalls (calls s3) = apiCalls (calls s1) @ [fetchRequest meth pth params bdy token]"
    using refreshAccessToken_apiCalls [OF r]
    by (simp add: clearToken_def log_call_def apiCalls_append)
next
  fix token' s3
  assume a: "refreshAccessToken net
              (clearToken (log_call (ApiCall (fetchRequest meth pth params bdy token)) s1))
              = (Inr token', s3) \<and> token' \<noteq> []"
  then have r: "refreshAccessToken net
              (clearToken (log_call (ApiCall (fetchRequest meth pth params bdy token)) s1))
              = (Inr token', s3)" and ne: "token' \<noteq> []" by simp_all
  show eq: "request net meth pth params bdy True s = request net meth pth params bdy False s3"
    by (simp add: request_401_retry [OF first unauthorized] r)
  have c3: "apiCalls (calls s3) = apiCalls (calls s1) @ [fetchRequest meth pth params bdy token]"
    using refreshAccessToken_apiCalls [OF r]
    by (simp add: clearToken_def log_call_def apiCalls_append)
  have "accessToken s3 = Some token'"
    by (rule refreshAccessToken_accessToken [OF r])
  with ne have g: "getAccessToken net s3 = (Inr token', s3)"
    by (simp add: getAccessToken_cached truthy_def str_def)
  note second = request_no_retry [OF g, of meth pth params bdy]
  show "apiCalls (calls (snd (request net meth pth params bdy True s))) =
          apiCalls (calls s1) @ [fetchRequest meth pth params bdy token,
                                 fetchRequest meth pth params bdy token']"
    by (simp add: eq second log_call_def apiCalls_append c3)
  fix res
  assume "api_endpoint net (calls s3) (fetchRequest meth pth params bdy token') = NotOk 401 res"
  then show "fst (request net meth pth params bdy True s) =
               Inl (ApiFailure (case res of Parsed e \<Rightarrow> e | SyntaxError _ \<Rightarrow> emptyObject) 401)"
    by (simp add: eq second)
qed

lemma unauthorized_reauth:
  "refreshAccessToken unauthorizedNetwork
     (clearToken (log_call (ApiCall (fetchRequest ''GET'' ''/conversations'' None None ''stale''))
        staleSession))
   = (Inr ''fresh'',
      \<lparr>accessToken = Some ''fresh'',
       auth = appStore\<lparr>storedAccessToken := Some ''fresh''\<rparr>,
       calls = [ApiCall (fetchRequest ''GET'' ''/conversations'' None None ''stale''),
                TokenCall (ClientCredentialsGrant ''app-id'' ''app-secret'')]\<rparr>)"
  by (simp add: refreshAccessToken_def clientCredentialsGrant_def Let_def clearToken_def
      log_call_def staleSession_def appStore_def truthy_def str_def unauthorizedNetwork_def
      tokenData_def setAccessToken_def)

text \<open>Witness: the API answers 401 twice and the token endpoint grants a token.\<close>

theorem request_retries_once_after_401_witness:
  "status (api_endpoint unauthorizedNetwork (calls staleSession)
      (fetchRequest ''GET'' ''/conversations'' None None ''stale'')) = 401
   \<and> apiCalls (calls (snd (request unauthorizedNetwork ''GET'' ''/conversations'' None None True
                               staleSession))) =
       [fetchRequest ''GET'' ''/conversations'' None None ''stale'',
        fetchRequest ''GET'' ''/conversations'' None None ''fresh'']
   \<and> fst (request unauthorizedNetwork ''GET'' ''/conversations'' None None True staleSession) =
       Inl (ApiFailure unauthorizedBody 401)"
proof -
  let ?s3 = "\<lparr>accessToken = Some ''fresh'',
       auth = appStore\<lparr>storedAccessToken := Some ''fresh''\<rparr>,
       calls = [ApiCall (fetchRequest ''GET'' ''/conversations'' None None ''stale''),
                TokenCall (ClientCredentialsGrant ''app-id'' ''app-secret'')]\<rparr>"
  have g: "getAccessToken unauthorizedNetwork staleSession = (Inr ''stale'', staleSession)"
    by (rule staleSession_token)
  have u: "status (api_endpoint unauthorizedNetwork (calls staleSession)
        (fetchRequest ''GET'' ''/conversations'' None None ''stale'')) = 401"
    by (simp add: unauthorizedNetwork_def)
  have r: "refreshAccessToken unauthorizedNetwork
     (clearToken (log_call (ApiCall (fetchRequest ''GET'' ''/conversations'' None None ''stale''))
        staleSession)) = (Inr ''fresh'', ?s3) \<and> ''fresh'' \<noteq> []"
    by (simp add: unauthorized_reauth)
  have n: "api_endpoint unauthorizedNetwork (calls ?s3)
             (fetchRequest ''GET'' ''/conversations'' None None ''fresh'')
           = NotOk 401 (Parsed unauthorizedBody)"
    by (simp add: unauthorizedNetwork_def)
  have c: "apiCalls (calls staleSession) = []" by (simp add: staleSession_def)
  from request_retries_once_after_401 [OF g u] r
  have A: "apiCalls (calls (snd (request unauthorizedNetwork ''GET'' ''/conversations'' None None
                                    True staleSession))) =
            apiCalls (calls staleSession) @
              [fetchRequest ''GET'' ''/conversations'' None None ''stale'',
               fetchRequest ''GET'' ''/conversations'' None None ''fresh'']"
    and B: "\<forall>res. api_endpoint unauthorizedNetwork (calls ?s3)
                 (fetchRequest ''GET'' ''/conversations'' None None ''fresh'') = NotOk 401 res
              \<longrightarrow> fst (request unauthorizedNetwork ''GET'' ''/conversations'' None None True
                          staleSession) =
                    Inl (ApiFailure (case res of Parsed e \<Rightarrow> e | SyntaxError _ \<Rightarrow> emptyObject)
                           401)"
    by blast+
  from B n have "fst (request unauthorizedNetwork ''GET'' ''/conversations'' None None True
                          staleSession) =
                    Inl (ApiFailure (case Parsed unauthorizedBody of Parsed e \<Rightarrow> e
                                     | SyntaxError _ \<Rightarrow> emptyObject) 401)"
    by blast
  with A u c show ?thesis by simp
qed

text \<open>
  Claim C1 as stated fails where the forced re-authentication fails: the request below
  has \<open>retry = true\<close> and a first response with status 401, the token endpoint refuses
  the credentials with status 400, that refusal is what is raised, and the call is
  issued once only.
\<close>

theorem request_not_reissued_counterexample:
  "status (api_endpoint revokedNetwork (calls staleSession)
      (fetchRequest ''GET'' ''/conversations'' None None ''stale'')) = 401
   \<and> fst (request revokedNetwork ''GET'' ''/conversations'' None None True staleSession) =
       Inl (ApiFailure invalidClient 400)
   \<and> calls (snd (request revokedNetwork ''GET'' ''/conversations'' None None True staleSession)) =
       [ApiCall (fetchRequest ''GET'' ''/conversations'' None None ''stale''),
        TokenCall (ClientCredentialsGrant ''app-id'' ''app-secret'')]"
proof -
  have g: "getAccessToken revokedNetwork staleSession = (Inr ''stale'', staleSession)"
    by (rule staleSession_token)
  have u: "status (api_endpoint revokedNetwork (calls staleSession)
        (fetchRequest ''GET'' ''/conversations'' None None ''stale'')) = 401"
    by (simp add: revokedNetwork_def)
  have r: "refreshAccessToken revokedNetwork
     (clearToken (log_call (ApiCall (fetchRequest ''GET'' ''/conversations'' None None ''stale''))
        staleSession))
   = (Inl (ApiFailure invalidClient 400),
      \<lparr>accessToken = None, auth = appStore,
       calls = [ApiCall (fetchRequest ''GET'' ''/conversations'' None None ''stale''),
                TokenCall (ClientCredentialsGrant ''app-id'' ''app-secret'')]\<rparr>)"
    by (simp add: refreshAccessToken_def clientCredentialsGrant_def Let_def clearToken_def
      log_call_def staleSession_def appStore_def truthy_def str_def revokedNetwork_def)
  show ?thesis
    by (simp add: request_401_retry [OF g u] r u)
qed

section \<open>Properties of \<open>refreshAccessToken\<close>\<close>

text \<open>
  Claim C2, amended. In every credential state with \<open>appId\<close>, \<open>appSecret\<close> and a
  persisted refresh token, \<open>refreshAccessToken\<close> first posts a \<open>refresh_token\<close> grant. When
  the answer is \<open>ok\<close> with a JSON body, its access token is returned, cached and
  persisted after this one call. In every other case (\<open>fetch\<close> rejects, the response is
  not \<open>ok\<close>, the body is not JSON) nothing of that failure is surfaced: the outcome is
  that of the \<open>client_credentials\<close> grant posted next with \<open>appId\<close> and \<open>appSecret\<close>, and
  when that grant is answered with a response that is not \<open>ok\<close> and whose body is JSON,
  the value raised is the parsed error body with the status code of the response. When
  the body of that response is not JSON, \<open>response.json()\<close> throws (there is no \<open>catch\<close>
  at line 124, unlike line 208 of \<open>request\<close>) and its \<open>SyntaxError\<close> is what is raised.
\<close>

theorem refreshAccessToken_refresh_then_client_credentials:
  assumes "truthy (appId (auth s))" and "truthy (appSecret (auth s))"
      and "truthy (refreshToken (auth s))"
  shows "(let i = str (appId (auth s)); sec = str (appSecret (auth s));
              refresh = RefreshTokenGrant i sec (str (refreshToken (auth s)));
              s1 = log_call (TokenCall refresh) s
          in (\<forall>code data.
                token_endpoint net (calls s) refresh = Ok code (Parsed data) \<longrightarrow>
                fst (refreshAccessToken net s) = Inr (access_token data)
                \<and> calls (snd (refreshAccessToken net s)) = calls s @ [TokenCall refresh]
                \<and> accessToken (snd (refreshAccessToken net s)) = Some (access_token data)
                \<and> storedAccessToken (auth (snd (refreshAccessToken net s))) =
                    Some (access_token data))
           \<and> ((\<forall>code data. token_endpoint net (calls s) refresh \<noteq> Ok code (Parsed data)) \<longrightarrow>
                refreshAccessToken net s = clientCredentialsGrant net i sec s1
                \<and> calls (snd (refreshAccessToken net s)) =
                    calls s @ [TokenCall refresh, TokenCall (ClientCredentialsGrant i sec)]
                \<and> (\<forall>code e.
                      token_endpoint net (calls s1) (ClientCredentialsGrant i sec) =
                        NotOk code (Parsed e) \<longrightarrow>
                      fst (refreshAccessToken net s) = Inl (ApiFailure e code))
                \<and> (\<forall>code m.
                      token_endpoint net (calls s1) (ClientCredentialsGrant i sec) =
                        NotOk code (SyntaxError m) \<longrightarrow>
                      fst (refreshAccessToken net s) = Inl (JsError m))
                \<and> (\<forall>code data.
                      token_endpoint net (calls s1) (ClientCredentialsGrant i sec) =
                        Ok code (Parsed data) \<longrightarrow>
                      fst (refreshAccessToken net s) = Inr (access_token data))))"
proof -
  let ?i = "str (appId (auth s))" and ?sec = "str (appSecret (auth s))"
  let ?refresh = "RefreshTokenGrant ?i ?sec (str (refreshToken (auth s)))"
  let ?s1 = "log_call (TokenCall ?refresh) s"
  note unfold = refreshAccessToken_with_refresh_token [OF assms, of net]
  have ok: "fst (refreshAccessToken net s) = Inr (access_token data)
        \<and> calls (snd (refreshAccessToken net s)) = calls s @ [TokenCall ?refresh]
        \<and> accessToken (snd (refreshAccessToken net s)) = Some (access_token data)
        \<and> storedAccessToken (auth (snd (refreshAccessToken net s))) = Some (access_token data)"
    if "token_endpoint net (calls s) ?refresh = Ok code (Parsed data)" for code data
    using that
    by (simp add: unfold refreshGrant_ok log_call_def setAccessToken_def setRefreshToken_def)
  have fall: "refreshAccessToken net s = clientCredentialsGrant net ?i ?sec ?s1"
    if "\<forall>code data. token_endpoint net (calls s) ?refresh \<noteq> Ok code (Parsed data)"
    using that by (simp add: unfold refreshGrant_falls_through)
  have fall_calls: "calls (snd (clientCredentialsGrant net ?i ?sec ?s1)) =
                    calls s @ [TokenCall ?refresh, TokenCall (ClientCredentialsGrant ?i ?sec)]"
    using clientCredentialsGrant_calls [OF surjective_pairing, of net ?i ?sec ?s1]
    by (simp add: log_call_def)
  show ?thesis
    unfolding Let_def
    by (intro conjI allI impI)
       (simp_all add: ok fall fall_calls clientCredentialsGrant_not_ok
          clientCredentialsGrant_not_json clientCredentialsGrant_ok)
qed

text \<open>
  Witness: both grants are refused with status 400 and a JSON body; and both grants
  are answered 502 with a page that is not JSON.
\<close>

theorem refreshAccessToken_fallback_witness:
  "truthy (refreshToken (auth refreshableSession))
   \<and> calls (snd (refreshAccessToken revokedNetwork refreshableSession)) =
       [TokenCall (RefreshTokenGrant ''app-id'' ''app-secret'' ''refresh-1''),
        TokenCall (ClientCredentialsGrant ''app-id'' ''app-secret'')]
   \<and> fst (refreshAccessToken revokedNetwork refreshableSession) =
       Inl (ApiFailure invalidClient 400)
   \<and> calls (snd (refreshAccessToken badGatewayNetwork refreshableSession)) =
       [TokenCall (RefreshTokenGrant ''app-id'' ''app-secret'' ''refresh-1''),
        TokenCall (ClientCredentialsGrant ''app-id'' ''app-secret'')]
   \<and> fst (refreshAccessToken badGatewayNetwork refreshableSession) =
       Inl (JsError ''Unexpected token < in JSON'')"
proof -
  have a: "truthy (appId (auth refreshableSession))" "truthy (appSecret (auth refreshableSession))"
     "truthy (refreshToken (auth refreshableSession))"
    by (simp_all add: refreshableSession_def appStore_def truthy_def)
  have i: "str (appId (auth refreshableSession)) = ''app-id''"
     "str (appSecret (auth refreshableSession)) = ''app-secret''"
     "str (refreshToken (auth refreshableSession)) = ''refresh-1''"
     "calls refreshableSession = []"
    by (simp_all add: refreshableSession_def appStore_def str_def)
  have n: "\<forall>code data. token_endpoint revokedNetwork h r \<noteq> Ok code (Parsed data)" for h r
    by (simp add: revokedNetwork_def)
  have c: "token_endpoint revokedNetwork h r = NotOk 400 (Parsed invalidClient)" for h r
    by (simp add: revokedNetwork_def)
  note T = refreshAccessToken_refresh_then_client_credentials
             [OF a, of revokedNetwork, unfolded Let_def i]
  from T n have A: "calls (snd (refreshAccessToken revokedNetwork refreshableSession)) =
       [] @ [TokenCall (RefreshTokenGrant ''app-id'' ''app-secret'' ''refresh-1''),
        TokenCall (ClientCredentialsGrant ''app-id'' ''app-secret'')]"
    and B: "\<forall>code e.
       token_endpoint revokedNetwork
         (calls (log_call (TokenCall (RefreshTokenGrant ''app-id'' ''app-secret'' ''refresh-1''))
                   refreshableSession))
         (ClientCredentialsGrant ''app-id'' ''app-secret'') = NotOk code (Parsed e) \<longrightarrow>
       fst (refreshAccessToken revokedNetwork refreshableSession) = Inl (ApiFailure e code)"
    by blast+
  from B c have C: "fst (refreshAccessToken revokedNetwork refreshableSession) =
       Inl (ApiFailure invalidClient 400)"
    by blast
  have n': "\<forall>code data. token_endpoint badGatewayNetwork h r \<noteq> Ok code (Parsed data)" for h r
    by (simp add: badGatewayNetwork_def)
  have c': "token_endpoint badGatewayNetwork h r =
            NotOk 502 (SyntaxError ''Unexpected token < in JSON'')" for h r
    by (simp add: badGatewayNetwork_def)
  note T' = refreshAccessToken_refresh_then_client_credentials
             [OF a, of badGatewayNetwork, unfolded Let_def i]
  from T' n' have A': "calls (snd (refreshAccessToken badGatewayNetwork refreshableSession)) =
       [] @ [TokenCall (RefreshTokenGrant ''app-id'' ''app-secret'' ''refresh-1''),
        TokenCall (ClientCredentialsGrant ''app-id'' ''app-secret'')]"
    and B': "\<forall>code m.
       token_endpoint badGatewayNetwork
         (calls (log_call (TokenCall (RefreshTokenGrant ''app-id'' ''app-secret'' ''refresh-1''))
                   refreshableSession))
         (ClientCredentialsGrant ''app-id'' ''app-secret'') = NotOk code (SyntaxError m) \<longrightarrow>
       fst (refreshAccessToken badGatewayNetwork refreshableSession) = Inl (JsError m)"
    by blast+
  from B' c' have C': "fst (refreshAccessToken badGatewayNetwork refreshableSession) =
       Inl (JsError ''Unexpected token < in JSON'')"
    by blast
  from A C A' C' a(3) show ?thesis by simp
qed

text \<open>
  Claim C2 as stated fails at two inputs. Where a refresh token is persisted and
  \<open>appId\<close> is absent, no \<open>refresh_token\<close> grant is attempted. Where the
  \<open>client_credentials\<close> grant is answered 502 with a body that is not JSON,
  \<open>response.json()\<close> throws and what is raised is that \<open>SyntaxError\<close>, without the status
  code.
\<close>

theorem refresh_not_attempted_counterexample:
  "refreshToken (auth unconfiguredSession) = Some ''refresh-1''
   \<and> fst (refreshAccessToken healthyNetwork unconfiguredSession) =
       Inl (HelpScoutCliError ''Not configured. Please run: helpscout auth login'' (Some 401))
   \<and> calls (snd (refreshAccessToken healthyNetwork unconfiguredSession)) = []
   \<and> token_endpoint badGatewayNetwork
         [TokenCall (RefreshTokenGrant ''app-id'' ''app-secret'' ''refresh-1'')]
         (ClientCredentialsGrant ''app-id'' ''app-secret'') =
       NotOk 502 (SyntaxError ''Unexpected token < in JSON'')
   \<and> refreshAccessToken badGatewayNetwork refreshableSession =
       (Inl (JsError ''Unexpected token < in JSON''),
        refreshableSession
          \<lparr>calls := [TokenCall (RefreshTokenGrant ''app-id'' ''app-secret'' ''refresh-1''),
                     TokenCall (ClientCredentialsGrant ''app-id'' ''app-secret'')]\<rparr>)"
  by (simp add: refreshAccessToken_def refreshGrant_def clientCredentialsGrant_def Let_def
      log_call_def unconfiguredSession_def refreshableSession_def appStore_def
      badGatewayNetwork_def truthy_def str_def)

section \<open>Removing a tag\<close>




section \<open>Properties of the Pagination Walker\<close>

lemma walk_requested:
  "snd (walk fuel listing p) = [p ..< p + length (snd (walk fuel listing p))]"
proof (induction fuel arbitrary: p)
  case 0
  show ?case by simp
next
  case (Suc fuel)
  show ?case
  proof (cases "lastPage (page (listing p))")
    case True
    then show ?thesis by (simp add: Let_def)
  next
    case False
    obtain rest requested where w: "walk fuel listing (Suc p) = (rest, requested)"
      by (cases "walk fuel listing (Suc p)")
    from Suc.IH [of "Suc p"] w
    have "requested = [Suc p ..< Suc p + length requested]" by simp
    moreover have "[p ..< p + Suc (length requested)] = p # [Suc p ..< Suc p + length requested]"
      by (simp add: upt_conv_Cons del: upt_Suc)
    ultimately have "p # requested = [p ..< p + Suc (length requested)]"
      by simp
    with False w show ?thesis by (simp add: Let_def del: upt_Suc)
  qed
qed

lemma walk_stops:
  "lastPage (page (listing (p + n))) \<Longrightarrow>
   (\<forall>k<n. \<not> lastPage (page (listing (p + k)))) \<Longrightarrow> n < fuel \<Longrightarrow>
   walk fuel listing p =
     (Some (concat (map (\<lambda>k. items (listing k)) [p ..< p + Suc n])), [p ..< p + Suc n])"
proof (induction n arbitrary: p fuel)
  case 0
  then obtain f where "fuel = Suc f" by (cases fuel) auto
  with 0 show ?case by (simp add: Let_def)
next
  case (Suc n)
  then obtain f where f: "fuel = Suc f" and nf: "n < f" by (cases fuel) auto
  from Suc.prems(2) have here: "\<not> lastPage (page (listing p))" by auto
  have last': "lastPage (page (listing (Suc p + n)))" using Suc.prems(1) by simp
  have before: "\<forall>k<n. \<not> lastPage (page (listing (Suc p + k)))"
  proof (intro allI impI)
    fix k assume "k < n"
    then have "Suc k < Suc n" by simp
    with Suc.prems(2) have "\<not> lastPage (page (listing (p + Suc k)))" by blast
    then show "\<not> lastPage (page (listing (Suc p + k)))" by simp
  qed
  have rest: "walk f listing (Suc p) =
     (Some (concat (map (\<lambda>k. items (listing k)) [Suc p ..< Suc p + Suc n])),
      [Suc p ..< Suc p + Suc n])"
    by (rule Suc.IH [OF last' before nf])
  have u: "[p ..< p + Suc (Suc n)] = p # [Suc p ..< Suc p + Suc n]"
    by (simp add: upt_conv_Cons)
  show ?case
    unfolding f u using here rest by (simp add: Let_def)
qed

text \<open>
  Claim C6. The Pagination Walker requests the pages 1, 2, 3, ... in this order, each
  number one more than the one before, so no page twice. It stops at the first page
  whose \<open>number\<close> has reached its \<open>totalPages\<close>, or whose \<open>totalPages\<close> is 0 or absent, and
  returns the items of the pages requested, concatenated; when the first page reports
  \<open>totalPages\<close> 0 or none, one call is made. Over three pages of 50, 50 and 7 items
  with \<open>totalPages = 3\<close> it requests the pages 1, 2, 3 and returns 107 items.
\<close>

theorem fetchAllPages_spec:
  "snd (fetchAllPages fuel listing) = [1 ..< 1 + length (snd (fetchAllPages fuel listing))]
   \<and> distinct (snd (fetchAllPages fuel listing))
   \<and> (lastPage pg \<longleftrightarrow>
        totalPages pg = None \<or> totalPages pg = Some 0
        \<or> (\<exists>t. totalPages pg = Some t \<and> t \<le> number pg))
   \<and> (totalPages (page (listing 1)) = None \<or> totalPages (page (listing 1)) = Some 0 \<longrightarrow>
        fetchAllPages (Suc fuel) listing = (Some (items (listing 1)), [1]))
   \<and> (\<forall>n. 1 \<le> n \<and> n \<le> fuel \<and> lastPage (page (listing n))
          \<and> (\<forall>k. 1 \<le> k \<and> k < n \<longrightarrow> \<not> lastPage (page (listing k))) \<longrightarrow>
        fetchAllPages fuel listing =
          (Some (concat (map (\<lambda>k. items (listing k)) [1 ..< Suc n])), [1 ..< Suc n]))
   \<and> ((\<forall>k. 1 \<le> k \<and> k \<le> 3 \<longrightarrow>
          number (page (listing k)) = k \<and> totalPages (page (listing k)) = Some 3)
        \<and> length (items (listing 1)) = 50 \<and> length (items (listing 2)) = 50
        \<and> length (items (listing 3)) = 7 \<and> 3 \<le> fuel \<longrightarrow>
        snd (fetchAllPages fuel listing) = [1, 2, 3]
        \<and> (\<exists>all. fst (fetchAllPages fuel listing) = Some all \<and> length all = 107))"
proof (intro conjI)
  show r: "snd (fetchAllPages fuel listing) = [1 ..< 1 + length (snd (fetchAllPages fuel listing))]"
    unfolding fetchAllPages_def by (rule walk_requested)
  show "distinct (snd (fetchAllPages fuel listing))"
    by (subst r) simp
  show "lastPage pg \<longleftrightarrow>
        totalPages pg = None \<or> totalPages pg = Some 0
        \<or> (\<exists>t. totalPages pg = Some t \<and> t \<le> number pg)"
    by (auto simp: lastPage_def split: option.splits)
  show "totalPages (page (listing 1)) = None \<or> totalPages (page (listing 1)) = Some 0 \<longrightarrow>
        fetchAllPages (Suc fuel) listing = (Some (items (listing 1)), [1])"
    by (auto simp: fetchAllPages_def lastPage_def Let_def)
  have general: "fetchAllPages fuel listing =
          (Some (concat (map (\<lambda>k. items (listing k)) [1 ..< Suc n])), [1 ..< Suc n])"
    if "1 \<le> n" "n \<le> fuel" "lastPage (page (listing n))"
       "\<forall>k. 1 \<le> k \<and> k < n \<longrightarrow> \<not> lastPage (page (listing k))" for n
  proof -
    from that(1) obtain m where m: "n = Suc m" by (cases n) auto
    have 1: "lastPage (page (listing (1 + m)))" using that(3) m by simp
    have 2: "\<forall>k<m. \<not> lastPage (page (listing (1 + k)))" using that(4) m by auto
    have 3: "m < fuel" using that(2) m by simp
    from walk_stops [OF 1 2 3] show ?thesis
      by (simp add: fetchAllPages_def m)
  qed
  then show "\<forall>n. 1 \<le> n \<and> n \<le> fuel \<and> lastPage (page (listing n))
          \<and> (\<forall>k. 1 \<le> k \<and> k < n \<longrightarrow> \<not> lastPage (page (listing k))) \<longrightarrow>
        fetchAllPages fuel listing =
          (Some (concat (map (\<lambda>k. items (listing k)) [1 ..< Suc n])), [1 ..< Suc n])"
    by blast
  show "(\<forall>k. 1 \<le> k \<and> k \<le> 3 \<longrightarrow>
          number (page (listing k)) = k \<and> totalPages (page (listing k)) = Some 3)
        \<and> length (items (listing 1)) = 50 \<and> length (items (listing 2)) = 50
        \<and> length (items (listing 3)) = 7 \<and> 3 \<le> fuel \<longrightarrow>
        snd (fetchAllPages fuel listing) = [1, 2, 3]
        \<and> (\<exists>all. fst (fetchAllPages fuel listing) = Some all \<and> length all = 107)"
  proof (intro impI)
    assume a: "(\<forall>k. 1 \<le> k \<and> k \<le> 3 \<longrightarrow>
          number (page (listing k)) = k \<and> totalPages (page (listing k)) = Some 3)
        \<and> length (items (listing 1)) = 50 \<and> length (items (listing 2)) = 50
        \<and> length (items (listing 3)) = 7 \<and> 3 \<le> fuel"
    then have p1: "number (page (listing 1)) = 1 \<and> totalPages (page (listing 1)) = Some 3"
      and p2: "number (page (listing 2)) = 2 \<and> totalPages (page (listing 2)) = Some 3"
      and p3: "number (page (listing 3)) = 3 \<and> totalPages (page (listing 3)) = Some 3"
      by simp_all
    have l3: "lastPage (page (listing 3))" using p3 by (simp add: lastPage_def)
    have nl: "\<forall>k. 1 \<le> k \<and> k < 3 \<longrightarrow> \<not> lastPage (page (listing k))"
    proof (intro allI impI)
      fix k :: nat assume "1 \<le> k \<and> k < 3"
      then have "k = 1 \<or> k = 2" by arith
      then show "\<not> lastPage (page (listing k))" using p1 p2 by (auto simp: lastPage_def)
    qed
    have u: "[1 ..< Suc 3] = [1, 2, 3]" by code_simp
    from general [of 3] a l3 nl
    have "fetchAllPages fuel listing =
          (Some (concat (map (\<lambda>k. items (listing k)) [1 ..< Suc 3])), [1 ..< Suc 3])"
      by simp
    then have "fetchAllPages fuel listing =
          (Some (concat (map (\<lambda>k. items (listing k)) [1, 2, 3])), [1, 2, 3])"
      by (simp only: u)
    with a show "snd (fetchAllPages fuel listing) = [1, 2, 3]
        \<and> (\<exists>all. fst (fetchAllPages fuel listing) = Some all \<and> length all = 107)"
      by simp
  qed
qed

text \<open>Witness: the three pages, and a listing with \<open>totalPages = 0\<close>.\<close>

theorem fetchAllPages_witness:
  "fetchAllPages 3 threePages =
     (Some (replicate 50 1 @ replicate 50 2 @ replicate 7 3), [1, 2, 3])
   \<and> length (replicate 50 (1::nat) @ replicate 50 2 @ replicate 7 3) = 107
   \<and> fetchAllPages 1 emptyListing = (Some [], [1])"
proof -
  have l3: "lastPage (page (threePages 3))" by (simp add: lastPage_def threePages_def)
  have nl: "\<forall>k. 1 \<le> k \<and> k < 3 \<longrightarrow> \<not> lastPage (page (threePages k))"
    by (simp add: lastPage_def threePages_def)
  have u: "[1 ..< Suc 3] = [1, 2, 3]" by code_simp
  note T = fetchAllPages_spec
  from T [of 3 threePages] l3 nl
  have "\<forall>n. 1 \<le> n \<and> n \<le> 3 \<and> lastPage (page (threePages n))
          \<and> (\<forall>k. 1 \<le> k \<and> k < n \<longrightarrow> \<not> lastPage (page (threePages k))) \<longrightarrow>
        fetchAllPages 3 threePages =
          (Some (concat (map (\<lambda>k. items (threePages k)) [1 ..< Suc n])), [1 ..< Suc n])"
    by blast
  with l3 nl have "fetchAllPages 3 threePages =
          (Some (concat (map (\<lambda>k. items (threePages k)) [1 ..< Suc 3])), [1 ..< Suc 3])"
    by (metis le_refl one_le_numeral)
  then have "fetchAllPages 3 threePages =
          (Some (concat (map (\<lambda>k. items (threePages k)) [1, 2, 3])), [1, 2, 3])"
    by (simp only: u)
  then have 1: "fetchAllPages 3 threePages =
     (Some (replicate 50 1 @ replicate 50 2 @ replicate 7 3), [1, 2, 3])"
    by (simp add: threePages_def)
  have z: "totalPages (page (emptyListing 1)) = Some 0" by (simp add: emptyListing_def)
  from T [of 0 emptyListing] z
  have "fetchAllPages (Suc 0) emptyListing = (Some (items (emptyListing 1)), [1])"
    by blast
  then have 2: "fetchAllPages 1 emptyListing = (Some [], [1])"
    by (simp add: emptyListing_def)
  from 1 2 show ?thesis by simp
qed

section \<open>Properties of the Conversation Summarizer\<close>











end
